theory Spec2Isabelle
  imports Main "HOL-Library.Word"
begin

unbundle bit_operations_syntax

section \<open>Strings, bytes and hexadecimal text\<close>

text \<open>
  A JavaScript string is modelled as a \<^typ>\<open>string\<close>: the list of its code units, each
  below 256 (the ASCII and Latin-1 range). A \<^verbatim>\<open>Uint8Array\<close> is a list of 8-bit words.
\<close>

type_synonym u8 = "8 word"
type_synonym u32 = "32 word"

text \<open>
  \<^verbatim>\<open>String.prototype.toUpperCase\<close>, on the letters a to z. The source applies it to
  hexadecimal text only (the output of \<^verbatim>\<open>hex()\<close> and of
  \<^verbatim>\<open>Hex.uint8ArrayToHexString\<close>).
\<close>

definition upperChar :: "char \<Rightarrow> char" where
  "upperChar c =
     (case map_of (zip ''abcdefghijklmnopqrstuvwxyz'' ''ABCDEFGHIJKLMNOPQRSTUVWXYZ'') c of
        Some u \<Rightarrow> u
      | None \<Rightarrow> c)"

definition toUpperCase :: "string \<Rightarrow> string" where
  "toUpperCase s = map upperChar s"

definition isLowerHexDigit :: "char \<Rightarrow> bool" where
  "isLowerHexDigit c = (c \<in> set ''0123456789abcdef'')"

definition isUpperHexDigit :: "char \<Rightarrow> bool" where
  "isUpperHexDigit c = (c \<in> set ''0123456789ABCDEF'')"

definition isHexDigit :: "char \<Rightarrow> bool" where
  "isHexDigit c = (isLowerHexDigit c \<or> isUpperHexDigit c)"

text \<open>One byte as two hexadecimal digits.\<close>

definition hexDigit :: "nat \<Rightarrow> char" where
  "hexDigit n = ''0123456789abcdef'' ! (n mod 16)"

definition hex2 :: "u8 \<Rightarrow> string" where
  "hex2 b = [hexDigit (unat b div 16), hexDigit (unat b mod 16)]"

text \<open>
  The class \<^verbatim>\<open>Hex\<close> of \<^verbatim>\<open>../misc/mod.ts\<close>, which \<^verbatim>\<open>hooks_builder.ts\<close> imports,
  is not among the source files. Its three operations are modelled from what the spec says of
  them. The digits are written in lower case, most significant nibble first; no theorem below
  depends on the case (the one caller that needs upper case applies \<^verbatim>\<open>toUpperCase\<close>
  itself).
\<close>

text \<open>
  Modelled from the spec: \<^verbatim>\<open>Hex.isHex\<close>, the test for "already valid hex"; read as a
  non-empty string of hexadecimal digits of either case.
\<close>

definition isHex :: "string \<Rightarrow> bool" where
  "isHex s = (s \<noteq> [] \<and> list_all isHexDigit s)"

text \<open>
  Modelled from the spec: \<^verbatim>\<open>Hex.stringToHexString\<close>, which converts "each character's byte
  representation to a two-hex-digit sequence".
\<close>

definition stringToHexString :: "string \<Rightarrow> string" where
  "stringToHexString s = concat (map (\<lambda>c. hex2 (of_char c)) s)"

text \<open>
  Modelled from the spec: \<^verbatim>\<open>Hex.uint8ArrayToHexString\<close>, the hex encoding of the artifact's
  bytes ("read the cleaned artifact's bytes, hex-encode"), two digits for each byte.
\<close>

definition uint8ArrayToHexString :: "u8 list \<Rightarrow> string" where
  "uint8ArrayToHexString bs = concat (map hex2 bs)"

text \<open>Reading hexadecimal text back into bytes: the inverse used to state what a transcription is.\<close>

definition hexValue :: "char \<Rightarrow> nat" where
  "hexValue c =
     (case map_of (zip ''0123456789abcdefABCDEF''
                       [0, 1, 2, 3, 4, 5, 6, 7, 8, 9, 10, 11, 12, 13, 14, 15, 10, 11, 12, 13, 14, 15]) c of
        Some n \<Rightarrow> n
      | None \<Rightarrow> 0)"

fun hexStringToBytes :: "string \<Rightarrow> u8 list" where
  "hexStringToBytes (h # l # cs) = of_nat (16 * hexValue h + hexValue l) # hexStringToBytes cs"
| "hexStringToBytes _ = []"

section \<open>SHA-256\<close>

text \<open>
  \<^verbatim>\<open>hexNamespace\<close> calls \<^verbatim>\<open>new Sha256().update(seed).hex()\<close> of the Deno standard
  library (\<^verbatim>\<open>std@0.119.0/hash/sha256.ts\<close>). The library computes SHA-256 as FIPS 180-4
  defines it, over the UTF-8 bytes of the string, and writes the digest as 64 lower-case
  hexadecimal digits. The function is embedded here from the standard.
\<close>

text \<open>
  The UTF-8 bytes of a string, as \<^verbatim>\<open>update\<close> takes them from \<^verbatim>\<open>charCodeAt\<close>: one byte
  for a code unit below \<^verbatim>\<open>0x80\<close>, the two bytes \<^verbatim>\<open>0xc0 | (code >> 6)\<close> and
  \<^verbatim>\<open>0x80 | (code & 0x3f)\<close> for one below \<^verbatim>\<open>0x800\<close>. The longer encodings are for code
  units from \<^verbatim>\<open>0x800\<close> on, which a \<^typ>\<open>char\<close> does not reach.
\<close>

definition utf8_char :: "char \<Rightarrow> u8 list" where
  "utf8_char c =
     (let code = of_char c :: nat
      in if code < 128 then [of_nat code]
         else [of_nat (192 + code div 64), of_nat (128 + code mod 64)])"

definition utf8 :: "string \<Rightarrow> u8 list" where
  "utf8 s = concat (map utf8_char s)"

definition rotr :: "nat \<Rightarrow> u32 \<Rightarrow> u32" where
  "rotr n x = (drop_bit n x) OR (push_bit (32 - n) x)"

definition Ch :: "u32 \<Rightarrow> u32 \<Rightarrow> u32 \<Rightarrow> u32" where
  "Ch x y z = (x AND y) XOR (NOT x AND z)"

definition Maj :: "u32 \<Rightarrow> u32 \<Rightarrow> u32 \<Rightarrow> u32" where
  "Maj x y z = (x AND y) XOR (x AND z) XOR (y AND z)"

definition bsig0 :: "u32 \<Rightarrow> u32" where
  "bsig0 x = rotr 2 x XOR rotr 13 x XOR rotr 22 x"

definition bsig1 :: "u32 \<Rightarrow> u32" where
  "bsig1 x = rotr 6 x XOR rotr 11 x XOR rotr 25 x"

definition ssig0 :: "u32 \<Rightarrow> u32" where
  "ssig0 x = rotr 7 x XOR rotr 18 x XOR drop_bit 3 x"

definition ssig1 :: "u32 \<Rightarrow> u32" where
  "ssig1 x = rotr 17 x XOR rotr 19 x XOR drop_bit 10 x"

definition K256 :: "u32 list" where
  "K256 =
    [0x428A2F98, 0x71374491, 0xB5C0FBCF, 0xE9B5DBA5, 0x3956C25B, 0x59F111F1, 0x923F82A4, 0xAB1C5ED5,
     0xD807AA98, 0x12835B01, 0x243185BE, 0x550C7DC3, 0x72BE5D74, 0x80DEB1FE, 0x9BDC06A7, 0xC19BF174,
     0xE49B69C1, 0xEFBE4786, 0x0FC19DC6, 0x240CA1CC, 0x2DE92C6F, 0x4A7484AA, 0x5CB0A9DC, 0x76F988DA,
     0x983E5152, 0xA831C66D, 0xB00327C8, 0xBF597FC7, 0xC6E00BF3, 0xD5A79147, 0x06CA6351, 0x14292967,
     0x27B70A85, 0x2E1B2138, 0x4D2C6DFC, 0x53380D13, 0x650A7354, 0x766A0ABB, 0x81C2C92E, 0x92722C85,
     0xA2BFE8A1, 0xA81A664B, 0xC24B8B70, 0xC76C51A3, 0xD192E819, 0xD6990624, 0xF40E3585, 0x106AA070,
     0x19A4C116, 0x1E376C08, 0x2748774C, 0x34B0BCB5, 0x391C0CB3, 0x4ED8AA4A, 0x5B9CCA4F, 0x682E6FF3,
     0x748F82EE, 0x78A5636F, 0x84C87814, 0x8CC70208, 0x90BEFFFA, 0xA4506CEB, 0xBEF9A3F7, 0xC67178F2]"

type_synonym sha_state = "u32 \<times> u32 \<times> u32 \<times> u32 \<times> u32 \<times> u32 \<times> u32 \<times> u32"

definition H256 :: sha_state where
  "H256 = (0x6A09E667, 0xBB67AE85, 0x3C6EF372, 0xA54FF53A,
           0x510E527F, 0x9B05688C, 0x1F83D9AB, 0x5BE0CD19)"

fun be32 :: "u8 list \<Rightarrow> u32 list" where
  "be32 (a # b # c # d # bs) =
     (push_bit 24 (ucast a) OR push_bit 16 (ucast b) OR push_bit 8 (ucast c) OR ucast d) # be32 bs"
| "be32 _ = []"

fun schedule :: "nat \<Rightarrow> u32 list \<Rightarrow> u32 list" where
  "schedule 0 w = w"
| "schedule (Suc n) w =
     schedule n (w @ [ssig1 (w ! (length w - 2)) + w ! (length w - 7)
                      + ssig0 (w ! (length w - 15)) + w ! (length w - 16)])"

definition round256 :: "sha_state \<Rightarrow> u32 \<times> u32 \<Rightarrow> sha_state" where
  "round256 s kw = (case s of (a, b, c, d, e, f, g, h) \<Rightarrow>
     let t1 = h + bsig1 e + Ch e f g + fst kw + snd kw;
         t2 = bsig0 a + Maj a b c
     in (t1 + t2, a, b, c, d + t1, e, f, g))"

definition add_state :: "sha_state \<Rightarrow> sha_state \<Rightarrow> sha_state" where
  "add_state s t =
     (case s of (a, b, c, d, e, f, g, h) \<Rightarrow>
      case t of (a', b', c', d', e', f', g', h') \<Rightarrow>
        (a + a', b + b', c + c', d + d', e + e', f + f', g + g', h + h'))"

definition compress :: "sha_state \<Rightarrow> u8 list \<Rightarrow> sha_state" where
  "compress s block = add_state s (foldl round256 s (zip K256 (schedule 48 (be32 block))))"

definition be64 :: "nat \<Rightarrow> u8 list" where
  "be64 n = map (\<lambda>i. ucast (drop_bit (8 * i) (of_nat n :: 64 word))) [7, 6, 5, 4, 3, 2, 1, 0]"

definition sha_pad :: "u8 list \<Rightarrow> u8 list" where
  "sha_pad m = m @ [0x80] @ replicate ((119 - length m mod 64) mod 64) 0 @ be64 (8 * length m)"

fun blocks :: "nat \<Rightarrow> u8 list \<Rightarrow> u8 list list" where
  "blocks 0 bs = []"
| "blocks (Suc n) bs = take 64 bs # blocks n (drop 64 bs)"

definition sha256 :: "u8 list \<Rightarrow> sha_state" where
  "sha256 m = (let p = sha_pad m in foldl compress H256 (blocks (length p div 64) p))"

definition hex32 :: "u32 \<Rightarrow> string" where
  "hex32 x = concat (map (\<lambda>i. hex2 (ucast (drop_bit (8 * i) x))) [3, 2, 1, 0])"

definition sha256_hex :: "string \<Rightarrow> string" where
  "sha256_hex s =
     (case sha256 (utf8 s) of
        (a, b, c, d, e, f, g, h) \<Rightarrow> concat (map hex32 [a, b, c, d, e, f, g, h]))"

section \<open>The payload and its encoders\<close>

text \<open>\<^verbatim>\<open>{ HookParameter: { HookParameterName, HookParameterValue } }\<close>\<close>

record HookParameterFields =
  HookParameterName :: string
  HookParameterValue :: string

record HookParameter =
  HookParameter :: HookParameterFields

text \<open>
  \<^verbatim>\<open>HookPayload\<close>, built as \<^verbatim>\<open>{ hookOn } as HookPayload\<close> and then filled field by
  field: a field that was never assigned is \<open>None\<close>. The declaration of \<^verbatim>\<open>HookGrant\<close>
  (\<^verbatim>\<open>../types/hooks.ts\<close>) is not among the source files; grants are passed through
  untouched, so their type is the parameter \<open>'g\<close>.
\<close>

record 'g HookPayload =
  hookOn :: string
  HookApiVersion :: "int option"
  HookNamespace :: "string option"
  Flags :: "int option"
  HookParameters :: "HookParameter list option"
  HookGrants :: "'g list option"
  CreateCode :: "string option"

definition hexNamespace :: "string \<Rightarrow> string" where
  "hexNamespace hookNamespaceSeed = toUpperCase (sha256_hex hookNamespaceSeed)"

text \<open>The body of the \<^verbatim>\<open>for ... of\<close> loop of \<^verbatim>\<open>hexHookParameters\<close>.\<close>

definition hexHookParameter :: "HookParameter \<Rightarrow> HookParameter" where
  "hexHookParameter parameter =
     (let hookPName = HookParameterName (HookParameter parameter);
          hookPValue = HookParameterValue (HookParameter parameter);
          hookPName = (if \<not> isHex hookPName then stringToHexString hookPName else hookPName);
          hookPValue = (if \<not> isHex hookPValue then stringToHexString hookPValue else hookPValue)
      in \<lparr>HookParameter =
            \<lparr>HookParameterName = hookPName, HookParameterValue = hookPValue\<rparr>\<rparr>)"

text \<open>The loop: \<open>hookParameters\<close> is the array the source pushes to.\<close>

fun hexHookParameters_loop :: "HookParameter list \<Rightarrow> HookParameter list \<Rightarrow> HookParameter list" where
  "hexHookParameters_loop hookParameters [] = hookParameters"
| "hexHookParameters_loop hookParameters (parameter # data) =
     hexHookParameters_loop (hookParameters @ [hexHookParameter parameter]) data"

definition hexHookParameters :: "HookParameter list \<Rightarrow> HookParameter list" where
  "hexHookParameters data = hexHookParameters_loop [] data"

text \<open>
  \<^verbatim>\<open>createHookPayload\<close>. An argument that is \<^verbatim>\<open>undefined\<close> or \<^verbatim>\<open>null\<close> is
  \<open>None\<close>; numbers are the integers the payload's fields hold. The tests of the source are
  JavaScript's: \<^verbatim>\<open>typeof version === "number"\<close> holds of every number, \<^verbatim>\<open>if (namespace)\<close>
  of every non-empty string, \<^verbatim>\<open>if (flags)\<close> of every non-zero number, and
  \<^verbatim>\<open>if (hookParams)\<close>, \<^verbatim>\<open>if (hookGrants)\<close> of every array, the empty one too.
\<close>

definition defaultHookOn :: string where
  "defaultHookOn = ''0xffffffffffffffffffffffffffffffffffffffffffffffffffffffffffbfffff''"

definition createHookPayload ::
  "int option \<Rightarrow> string option \<Rightarrow> int option \<Rightarrow> string option \<Rightarrow>
   HookParameter list option \<Rightarrow> 'g list option \<Rightarrow> 'g HookPayload" where
  "createHookPayload version namespace flags hookOn_arg hookParams hookGrants =
     (let hook = \<lparr>hookOn = (case hookOn_arg of None \<Rightarrow> defaultHookOn | Some m \<Rightarrow> m),
                  HookApiVersion = None, HookNamespace = None, Flags = None,
                  HookParameters = None, HookGrants = None, CreateCode = None\<rparr>;
          hook = (case version of Some v \<Rightarrow> hook\<lparr>HookApiVersion := Some v\<rparr> | None \<Rightarrow> hook);
          hook = (case namespace of
                    Some ns \<Rightarrow> if ns \<noteq> [] then hook\<lparr>HookNamespace := Some (hexNamespace ns)\<rparr> else hook
                  | None \<Rightarrow> hook);
          hook = (case flags of
                    Some fl \<Rightarrow> if fl \<noteq> 0 then hook\<lparr>Flags := Some fl\<rparr> else hook
                  | None \<Rightarrow> hook);
          hook = (case hookParams of
                    Some ps \<Rightarrow> hook\<lparr>HookParameters := Some (hexHookParameters ps)\<rparr>
                  | None \<Rightarrow> hook);
          hook = (case hookGrants of Some gs \<Rightarrow> hook\<lparr>HookGrants := Some gs\<rparr> | None \<Rightarrow> hook)
      in hook)"

text \<open>
  The rule of the spec for one name or value: "if already valid hex, pass through unchanged;
  otherwise convert each character's byte representation to a two-hex-digit sequence". It is the
  specification side of the comparison with \<open>hexHookParameters\<close>.
\<close>

definition spec_encodeField :: "string \<Rightarrow> string" where
  "spec_encodeField s = (if isHex s then s else stringToHexString s)"

definition spec_encodePair :: "HookParameter \<Rightarrow> HookParameter" where
  "spec_encodePair p =
     \<lparr>HookParameter =
        \<lparr>HookParameterName = spec_encodeField (HookParameterName (HookParameter p)),
         HookParameterValue = spec_encodeField (HookParameterValue (HookParameter p))\<rparr>\<rparr>"

section \<open>Effects: errors, the console, processes, files\<close>

text \<open>
  A rejected promise or a thrown exception is a value: \<open>External\<close> for an error raised by a
  collaborator (Deno, the network client), \<open>Error\<close> for \<^verbatim>\<open>new Error(message)\<close> thrown by
  this code.
\<close>

datatype error = External string | Error string

fun errorText :: "error \<Rightarrow> string" where
  "errorText (External m) = m"
| "errorText (Error m) = ''Error: '' @ m"

text \<open>\<^verbatim>\<open>Deno.CommandOutput\<close>: the exit status and the captured streams of a finished process.\<close>

record CommandOutput =
  success :: bool
  code :: int
  stdout :: "u8 list"
  stderr :: "u8 list"

text \<open>JSON data, as \<^verbatim>\<open>JSON.parse\<close> produces it; an object keeps its properties in order.\<close>

datatype json =
    JNull
  | JBool bool
  | JNum int
  | JStr string
  | JArr "json list"
  | JObj "(string \<times> json) list"

type_synonym object = "(string \<times> json) list"

datatype logged = Bytes "u8 list" | Json CommandOutput | Text string

text \<open>
  What the code does to the outside world, in the order it does it: the trace of a run. Every
  function below takes the trace so far and returns it extended.
\<close>

datatype event =
    Spawn string "string list"
  | ConsoleLog logged
  | ConsoleError logged
  | ReadFile string
  | SubmitAndWait
  | Sleep nat
  | Autofill object
  | Encode object
  | FeeEstimate string

text \<open>
  The environment of a build: the working directory, what running a command gives (\<open>Inl\<close> when
  the process cannot be started, otherwise its output with its exit status), and what reading a
  file gives at the moment \<open>buildHook\<close> reads it (\<open>Inl\<close> when the file is missing).
\<close>

record world =
  cwd :: string
  command_output :: "string \<Rightarrow> string list \<Rightarrow> error + CommandOutput"
  readFile :: "string \<Rightarrow> error + u8 list"

text \<open>
  \<^verbatim>\<open>path.join\<close>: the segments with the separator between them. The library function also
  normalises the result (repeated separators, \<^verbatim>\<open>.\<close> and \<^verbatim>\<open>..\<close> segments); the model does
  not, which changes the spelling of a path and nothing else: the theorems below keep the paths
  symbolic.
\<close>

fun path_join :: "string list \<Rightarrow> string" where
  "path_join [] = ''.''"
| "path_join [p] = p"
| "path_join (p # ps) = p @ ''/'' @ path_join ps"

definition handleOutput :: "CommandOutput \<Rightarrow> event list \<Rightarrow> event list" where
  "handleOutput output tr =
     (if success output then tr @ [ConsoleLog (Bytes (stdout output))]
      else tr @ [ConsoleError (Bytes (stderr output))])"

text \<open>
  \<^verbatim>\<open>Promise.all\<close>: every promise of the array has been started; the result is the list of
  their values, or the rejection of one of them (here the first in the array's order).
\<close>

fun promise_all :: "(error + 'a) list \<Rightarrow> error + 'a list" where
  "promise_all [] = Inr []"
| "promise_all (Inl e # rs) = Inl e"
| "promise_all (Inr x # rs) = (case promise_all rs of Inl e \<Rightarrow> Inl e | Inr xs \<Rightarrow> Inr (x # xs))"

section \<open>The build pipeline\<close>

definition wasmDir :: "world \<Rightarrow> string" where
  "wasmDir w = path_join [cwd w, ''target'', ''wasm32-unknown-unknown'', ''release'']"

definition debugDir :: "world \<Rightarrow> string" where
  "debugDir w = path_join [cwd w, ''target'']"

definition wasmInFile :: "world \<Rightarrow> string \<Rightarrow> string" where
  "wasmInFile w hookName = path_join [wasmDir w, hookName @ ''.wasm'']"

definition wasmOutFlattened :: "world \<Rightarrow> string \<Rightarrow> string" where
  "wasmOutFlattened w hookName = path_join [wasmDir w, hookName @ ''-flattened.wasm'']"

definition wasmOutCleaned :: "world \<Rightarrow> string \<Rightarrow> string" where
  "wasmOutCleaned w hookName = path_join [wasmDir w, hookName @ ''-cleaned.wasm'']"

definition cargoArgs :: "string list" where
  "cargoArgs = [''+nightly'', ''build'', ''--release'']"

definition wasmOptArgs :: "world \<Rightarrow> string \<Rightarrow> string list" where
  "wasmOptArgs w hookName =
     [wasmInFile w hookName, ''--flatten'', ''--rereloop'', ''-Oz'', ''-Oz'', ''-o'',
      wasmOutFlattened w hookName]"

definition hookCleanerArgs :: "world \<Rightarrow> string \<Rightarrow> string list" where
  "hookCleanerArgs w hookName = [wasmOutFlattened w hookName, wasmOutCleaned w hookName]"

definition wasm2watArgs :: "world \<Rightarrow> string \<Rightarrow> string list list" where
  "wasm2watArgs w hookName =
     [[wasmInFile w hookName, ''-o'', path_join [debugDir w, hookName @ ''.wat'']],
      [wasmOutCleaned w hookName, ''-o'', path_join [debugDir w, hookName @ ''-cleaned.wat'']],
      [wasmOutFlattened w hookName, ''-o'', path_join [debugDir w, hookName @ ''-flattened.wat'']]]"

definition guardCheckerArgs :: "world \<Rightarrow> string \<Rightarrow> string list" where
  "guardCheckerArgs w hookName = [wasmOutCleaned w hookName]"

text \<open>
  \<^verbatim>\<open>buildHook\<close>: the trace of the run and its outcome, \<open>Inl\<close> when the promise it returns is
  rejected. An \<^verbatim>\<open>await\<close> of a rejected promise ends the function there.
\<close>

definition buildHook :: "world \<Rightarrow> string \<Rightarrow> event list \<times> (error + 'g HookPayload)" where
  "buildHook w hookName =
    (let t1 = [Spawn ''cargo'' cargoArgs] in
     case command_output w ''cargo'' cargoArgs of
       Inl e \<Rightarrow> (t1, Inl e)
     | Inr cargoBuildOutput \<Rightarrow>
    (let t2 = handleOutput cargoBuildOutput t1;
         hook = createHookPayload (Some 0) (Some (hookName @ ''namespace'')) None None None None;
         t3 = t2 @ [Spawn ''wasm-opt'' (wasmOptArgs w hookName)] in
     case command_output w ''wasm-opt'' (wasmOptArgs w hookName) of
       Inl e \<Rightarrow> (t3, Inl e)
     | Inr wasmOptOutput \<Rightarrow>
    (let t4 = handleOutput wasmOptOutput t3;
         t5 = t4 @ [Spawn ''hook-cleaner'' (hookCleanerArgs w hookName)] in
     case command_output w ''hook-cleaner'' (hookCleanerArgs w hookName) of
       Inl e \<Rightarrow> (t5, Inl e)
     | Inr hookCleanerOut \<Rightarrow>
    (let t6 = t5 @ [ConsoleLog (Json hookCleanerOut)];
         t7 = t6 @ map (Spawn ''wasm2wat'') (wasm2watArgs w hookName) in
     case promise_all (map (command_output w ''wasm2wat'') (wasm2watArgs w hookName)) of
       Inl e \<Rightarrow> (t7, Inl e)
     | Inr _ \<Rightarrow>
    (let t8 = t7 @ [Spawn ''guard_checker'' (guardCheckerArgs w hookName)] in
     case command_output w ''guard_checker'' (guardCheckerArgs w hookName) of
       Inl e \<Rightarrow> (t8, Inl e)
     | Inr guardCheckerOut \<Rightarrow>
    (let t9 = handleOutput guardCheckerOut t8 @ [ReadFile (wasmOutCleaned w hookName)] in
     case readFile w (wasmOutCleaned w hookName) of
       Inl e \<Rightarrow> (t9, Inl e)
     | Inr wasm \<Rightarrow>
         (t9, Inr (hook\<lparr>CreateCode := Some (toUpperCase (uint8ArrayToHexString wasm))\<rparr>))))))))"

text \<open>The events of a trace that start a process.\<close>

fun isSpawn :: "event \<Rightarrow> bool" where
  "isSpawn (Spawn c a) = True"
| "isSpawn _ = False"

section \<open>Submission with retries\<close>

text \<open>\<^verbatim>\<open>`${tries}`\<close>: a number in decimal.\<close>

definition digitChar :: "nat \<Rightarrow> char" where
  "digitChar n = ''0123456789'' ! (n mod 10)"

function numberToString :: "nat \<Rightarrow> string" where
  "numberToString n =
     (if n < 10 then [digitChar n] else numberToString (n div 10) @ [digitChar (n mod 10)])"
  by pat_completeness auto
termination
  by (relation "measure id") auto

declare numberToString.simps [simp del]

text \<open>
  The network client is a state \<open>'c\<close> and its operations; each call returns its outcome and
  the client's next state. \<open>'p\<close> is the parameter tuple of \<^verbatim>\<open>submitAndWait\<close>, \<open>'r\<close> its
  result.
\<close>

type_synonym ('c, 'p, 'r) submitAndWait = "'c \<Rightarrow> 'p \<Rightarrow> (error + 'r) \<times> 'c"

text \<open>The \<^verbatim>\<open>while (tries < 3)\<close> loop of \<^verbatim>\<open>submitAndWaitWithRetries\<close>.\<close>

function submit_loop ::
  "('c, 'p, 'r) submitAndWait \<Rightarrow> 'p \<Rightarrow> nat \<Rightarrow> 'c \<Rightarrow> event list \<Rightarrow> (error + 'r) \<times> 'c \<times> event list" where
  "submit_loop submitAndWait params tries c tr =
     (if tries < 3 then
        (case submitAndWait c params of
           (Inr result, c') \<Rightarrow> (Inr result, c', tr @ [SubmitAndWait])
         | (Inl e, c') \<Rightarrow>
             submit_loop submitAndWait params (tries + 1) c'
               (tr @ [SubmitAndWait, ConsoleError (Text (errorText e @ '' - retrying...'')),
                      Sleep 1000]))
      else
        (Inl (Error (''Could not submit transaction after '' @ numberToString tries @ '' tries'')),
         c, tr))"
  by pat_completeness auto
termination
  by (relation "measure (\<lambda>(submitAndWait, params, tries, c, tr). 3 - tries)") auto

declare submit_loop.simps [simp del]

definition submitAndWaitWithRetries ::
  "('c, 'p, 'r) submitAndWait \<Rightarrow> 'c \<Rightarrow> 'p \<Rightarrow> (error + 'r) \<times> 'c \<times> event list" where
  "submitAndWaitWithRetries submitAndWait client params = submit_loop submitAndWait params 0 client []"

fun isSleep :: "event \<Rightarrow> bool" where
  "isSleep (Sleep ms) = True"
| "isSleep _ = False"

fun isAttemptOrSleep :: "event \<Rightarrow> bool" where
  "isAttemptOrSleep SubmitAndWait = True"
| "isAttemptOrSleep (Sleep ms) = True"
| "isAttemptOrSleep _ = False"

section \<open>Fee estimation\<close>





record 'c fee_state =
  heap :: "object list"
  client :: 'c
  trace :: "event list"


section \<open>What the theorems are stated with\<close>

text \<open>What \<open>handleOutput\<close> writes for one finished process.\<close>

definition outputLog :: "CommandOutput \<Rightarrow> event" where
  "outputLog output =
     (if success output then ConsoleLog (Bytes (stdout output))
      else ConsoleError (Bytes (stderr output)))"

text \<open>
  Two concrete environments for the hook \<open>foo\<close>. In both every tool exits with a failure.
  In the first a cleaned artifact of four bytes is on disk (left by an earlier build); in the
  second there is none.
\<close>

definition failedOutput :: CommandOutput where
  "failedOutput = \<lparr>success = False, code = 1, stdout = [], stderr = [0x65, 0x72, 0x72]\<rparr>"

definition world_stale_artifact :: world where
  "world_stale_artifact =
     \<lparr>cwd = ''/p'',
      command_output = (\<lambda>c a. Inr failedOutput),
      readFile = (\<lambda>p. if p = ''/p/target/wasm32-unknown-unknown/release/foo-cleaned.wasm''
                        then Inr [0x00, 0x61, 0x73, 0x6D]
                        else Inl (External ''NotFound''))\<rparr>"

definition world_no_artifact :: world where
  "world_no_artifact =
     \<lparr>cwd = ''/p'',
      command_output = (\<lambda>c a. Inr failedOutput),
      readFile = (\<lambda>p. Inl (External ''NotFound''))\<rparr>"

definition payload_foo :: "unit HookPayload" where
  "payload_foo =
     \<lparr>hookOn = ''0xffffffffffffffffffffffffffffffffffffffffffffffffffffffffffbfffff'',
      HookApiVersion = Some 0,
      HookNamespace = Some ''3EF7FEEFC8DE4F848C7051D9F78A00E8AAD4E9A1A9DC032C665CDC0612EBFC10'',
      Flags = None, HookParameters = None, HookGrants = None,
      CreateCode = Some ''0061736D''\<rparr>"

text \<open>
  Two clients for \<^verbatim>\<open>submitAndWaitWithRetries\<close>: one whose state counts the calls made and
  which fails the first three of them, and one that fails every call.
\<close>

definition flakySubmit :: "(nat, unit, string) submitAndWait" where
  "flakySubmit n params =
     (if n < 3 then Inl (External ''tefPAST_SEQ'') else Inr ''tesSUCCESS'', n + 1)"

definition downSubmit :: "(unit, unit, string) submitAndWait" where
  "downSubmit c params = (Inl (External ''timeout''), c)"





section \<open>Hexadecimal text: lengths, digits, decoding\<close>

lemma hexDigit_lower: "isLowerHexDigit (hexDigit n)"
proof -
  have "n mod 16 < length ''0123456789abcdef''" by simp
  then have "''0123456789abcdef'' ! (n mod 16) \<in> set ''0123456789abcdef''"
    by (rule nth_mem)
  then show ?thesis
    unfolding hexDigit_def isLowerHexDigit_def .
qed

lemma upperChar_hex_table: "\<forall>c \<in> set ''0123456789abcdef''. isUpperHexDigit (upperChar c)"
  by (simp add: isUpperHexDigit_def upperChar_def)

lemma upperChar_hex: "isLowerHexDigit c \<Longrightarrow> isUpperHexDigit (upperChar c)"
  using upperChar_hex_table unfolding isLowerHexDigit_def by blast

lemma hexValue_digit_table:
  "\<forall>k \<in> set [0..<16]. hexValue (upperChar (hexDigit k)) = k \<and> hexValue (hexDigit k) = k"
  by (simp add: upt_rec hexValue_def upperChar_def hexDigit_def)

lemma hexValue_upper_digit: "k < 16 \<Longrightarrow> hexValue (upperChar (hexDigit k)) = k"
  using hexValue_digit_table by simp

lemma hex2_length: "length (hex2 b) = 2"
  by (simp add: hex2_def)

lemma hex2_lower: "list_all isLowerHexDigit (hex2 b)"
  by (simp add: hex2_def hexDigit_lower)

lemma decode_hex2:
  "hexStringToBytes (toUpperCase (hex2 b @ cs)) = b # hexStringToBytes (toUpperCase cs)"
proof -
  have "unat b div 16 < 16"
    using unsigned_less [of b, where ?'a = nat] by simp
  then have hi: "hexValue (upperChar (hexDigit (unat b div 16))) = unat b div 16"
    by (rule hexValue_upper_digit)
  have lo: "hexValue (upperChar (hexDigit (unat b mod 16))) = unat b mod 16"
    by (rule hexValue_upper_digit) simp
  from hi lo show ?thesis
    by (simp add: hex2_def toUpperCase_def)
qed

lemma uint8ArrayToHexString_Cons:
  "uint8ArrayToHexString (b # bs) = hex2 b @ uint8ArrayToHexString bs"
  by (simp add: uint8ArrayToHexString_def)

lemma uint8ArrayToHexString_length: "length (uint8ArrayToHexString bs) = 2 * length bs"
  by (induction bs) (simp_all add: uint8ArrayToHexString_def hex2_length)

lemma uint8ArrayToHexString_lower: "list_all isLowerHexDigit (uint8ArrayToHexString bs)"
  by (induction bs) (simp_all add: uint8ArrayToHexString_def hex2_lower)

lemma toUpperCase_length: "length (toUpperCase s) = length s"
  by (simp add: toUpperCase_def)

lemma toUpperCase_upper:
  "list_all isLowerHexDigit s \<Longrightarrow> list_all isUpperHexDigit (toUpperCase s)"
  by (induction s) (simp_all add: toUpperCase_def upperChar_hex)

lemma decode_uint8ArrayToHexString:
  "hexStringToBytes (toUpperCase (uint8ArrayToHexString bs)) = bs"
proof (induction bs)
  case Nil
  show ?case by (simp add: uint8ArrayToHexString_def toUpperCase_def)
next
  case (Cons b bs)
  then show ?case by (simp add: uint8ArrayToHexString_Cons decode_hex2)
qed

lemma toUpperCase_uint8ArrayToHexString:
  "toUpperCase (uint8ArrayToHexString bs) =
     concat (map (\<lambda>b. [upperChar (hexDigit (unat b div 16)), upperChar (hexDigit (unat b mod 16))]) bs)"
  by (induction bs) (simp_all add: uint8ArrayToHexString_def toUpperCase_def hex2_def)

lemma hex32_length: "length (hex32 x) = 8"
  by (simp add: hex32_def hex2_length)

lemma hex32_lower: "list_all isLowerHexDigit (hex32 x)"
  by (simp add: hex32_def hex2_lower)

lemma sha256_hex_length: "length (sha256_hex s) = 64"
  by (simp add: sha256_hex_def hex32_length split: prod.splits)

lemma sha256_hex_lower: "list_all isLowerHexDigit (sha256_hex s)"
  by (simp add: sha256_hex_def hex32_lower split: prod.splits)

lemma hexNamespace_length: "length (hexNamespace s) = 64"
  by (simp add: hexNamespace_def toUpperCase_length sha256_hex_length)

lemma hexNamespace_upper: "list_all isUpperHexDigit (hexNamespace s)"
  by (simp add: hexNamespace_def toUpperCase_upper sha256_hex_lower)

lemma hexNamespace_not_seed: "hexNamespace s \<noteq> n @ ''namespace''"
proof
  assume eq: "hexNamespace s = n @ ''namespace''"
  have "list_all isUpperHexDigit (n @ ''namespace'')"
    using hexNamespace_upper [of s] by (simp only: eq)
  then show False by (simp add: isUpperHexDigit_def)
qed

text \<open>
  The embedding of SHA-256 on the seed of the spec's scenario: the digest is the one every
  SHA-256 implementation gives for the twelve bytes of \<open>foonamespace\<close>.
\<close>

lemma sha256_hex_foonamespace:
  "sha256_hex ''foonamespace'' = ''3ef7feefc8de4f848c7051d9f78a00e8aad4e9a1a9dc032c665cdc0612ebfc10''"
  by code_simp

text \<open>The first test vector of the standard.\<close>

lemma sha256_hex_abc:
  "sha256_hex ''abc'' = ''ba7816bf8f01cfea414140de5dae2223b00361a396177a9cb410ff61f20015ad''"
  by code_simp

text \<open>A string with a code unit above \<^verbatim>\<open>0x7f\<close>: the digest is that of its two UTF-8 bytes.\<close>

lemma sha256_hex_e_acute:
  "sha256_hex [CHR 0xE9] = ''4a99557e4033c3539de2eb65472017cad5f9557f7a0625a09f1c3f6e2ba69c4c''"
  by code_simp

lemma hexNamespace_foonamespace:
  "hexNamespace ''foonamespace'' = ''3EF7FEEFC8DE4F848C7051D9F78A00E8AAD4E9A1A9DC032C665CDC0612EBFC10''"
  by (simp add: hexNamespace_def sha256_hex_foonamespace toUpperCase_def upperChar_def)

section \<open>The parameter encoder\<close>

lemma hexHookParameters_loop_map:
  "hexHookParameters_loop acc data = acc @ map hexHookParameter data"
  by (induction data arbitrary: acc) simp_all

lemma stringToHexString_hex: "list_all isHexDigit (stringToHexString s)"
  by (induction s) (simp_all add: stringToHexString_def hex2_def isHexDigit_def hexDigit_lower)

lemma stringToHexString_Nil: "stringToHexString s = [] \<longleftrightarrow> s = []"
  by (cases s) (simp_all add: stringToHexString_def hex2_def)

lemma spec_encodeField_idem: "spec_encodeField (spec_encodeField s) = spec_encodeField s"
proof (cases "isHex s")
  case True
  then show ?thesis by (simp add: spec_encodeField_def)
next
  case not_hex: False
  show ?thesis
  proof (cases "s = []")
    case True
    then show ?thesis by (simp add: spec_encodeField_def stringToHexString_def isHex_def)
  next
    case False
    then have "isHex (stringToHexString s)"
      by (simp add: isHex_def stringToHexString_hex stringToHexString_Nil)
    with not_hex show ?thesis by (simp add: spec_encodeField_def)
  qed
qed

lemma hexHookParameter_spec: "hexHookParameter p = spec_encodePair p"
  by (simp add: hexHookParameter_def spec_encodePair_def spec_encodeField_def Let_def)

lemma spec_encodePair_idem: "spec_encodePair (spec_encodePair p) = spec_encodePair p"
  by (simp add: spec_encodePair_def spec_encodeField_idem)

lemma hexHookParameters_map: "hexHookParameters p = map spec_encodePair p"
  by (simp add: hexHookParameters_def hexHookParameters_loop_map hexHookParameter_spec)

section \<open>The payload builder\<close>

lemma createHookPayload_fields:
  "hookOn (createHookPayload v ns fl m ps gs) = (case m of None \<Rightarrow> defaultHookOn | Some x \<Rightarrow> x)"
  "HookApiVersion (createHookPayload v ns fl m ps gs) = v"
  "HookNamespace (createHookPayload v ns fl m ps gs) =
     (case ns of None \<Rightarrow> None | Some s \<Rightarrow> if s \<noteq> [] then Some (hexNamespace s) else None)"
  "Flags (createHookPayload v ns fl m ps gs) =
     (case fl of None \<Rightarrow> None | Some n \<Rightarrow> if n \<noteq> 0 then Some n else None)"
  "HookParameters (createHookPayload v ns fl m ps gs) = map_option hexHookParameters ps"
  "HookGrants (createHookPayload v ns fl m ps gs) = gs"
  "CreateCode (createHookPayload v ns fl m ps gs) = None"
  by (simp_all add: createHookPayload_def Let_def split: option.splits)

text \<open>
  C1 (as stated, refuted). The spec gives the default on-mask as the literal
  \<^verbatim>\<open>0xFFFFFFFFFFFFFFFFFFFFFFFFFFFFFFFFFFFFFFFFFFFFFFFFFFFFFFFFFBFFFFF\<close>, which has 63 hexadecimal
  digits. The payload built with no \<^verbatim>\<open>hookOn\<close> argument does not hold that literal: its on-mask
  differs from it, in length already.
\<close>

theorem createHookPayload_default_hookOn_not_spec_literal:
  "hookOn (createHookPayload None None None None None (None :: unit list option))
     \<noteq> ''0xFFFFFFFFFFFFFFFFFFFFFFFFFFFFFFFFFFFFFFFFFFFFFFFFFFFFFFFFFBFFFFF''
   \<and> length (hookOn (createHookPayload None None None None None (None :: unit list option)))
     \<noteq> length ''0xFFFFFFFFFFFFFFFFFFFFFFFFFFFFFFFFFFFFFFFFFFFFFFFFFFFFFFFFFBFFFFF''"
  by (simp add: createHookPayload_fields defaultHookOn_def)

text \<open>
  C1 (amended). For every call of \<^verbatim>\<open>createHookPayload\<close> with no \<^verbatim>\<open>hookOn\<close> argument,
  whatever the other arguments, the payload's on-mask is the string
  \<^verbatim>\<open>0xffffffffffffffffffffffffffffffffffffffffffffffffffffffffffbfffff\<close>: 64 lower-case
  hexadecimal digits after the prefix, the 32 bytes whose only cleared bit is bit 22. A supplied
  on-mask is kept as it is. The field is a mandatory one of the record: it is always present.
\<close>

theorem createHookPayload_default_hookOn:
  "hookOn (createHookPayload version namespace flags None hookParams hookGrants)
     = ''0xffffffffffffffffffffffffffffffffffffffffffffffffffffffffffbfffff''
   \<and> length (hookOn (createHookPayload version namespace flags None hookParams hookGrants)) = 2 + 64
   \<and> hexStringToBytes (drop 2 (hookOn (createHookPayload version namespace flags None hookParams hookGrants)))
     = replicate 29 0xff @ [0xbf, 0xff, 0xff]
   \<and> hookOn (createHookPayload version namespace flags (Some onMask) hookParams hookGrants) = onMask"
  by (simp add: createHookPayload_fields defaultHookOn_def hexValue_def numeral_eq_Suc)

text \<open>
  C4. A payload built with \<^verbatim>\<open>version = 0\<close> has \<^verbatim>\<open>HookApiVersion\<close> present and equal to
  0; built with no version, it has no \<^verbatim>\<open>HookApiVersion\<close>; in general the field is exactly the
  argument, so that zero and unset are told apart.
\<close>

theorem createHookPayload_apiVersion_zero:
  "HookApiVersion (createHookPayload (Some 0) namespace flags onMask hookParams hookGrants) = Some 0
   \<and> HookApiVersion (createHookPayload None namespace flags onMask hookParams hookGrants) = None
   \<and> HookApiVersion (createHookPayload version namespace flags onMask hookParams hookGrants) = version
   \<and> createHookPayload (Some 0) namespace flags onMask hookParams hookGrants
     \<noteq> createHookPayload None namespace flags onMask hookParams hookGrants"
proof -
  have "HookApiVersion (createHookPayload (Some 0) namespace flags onMask hookParams hookGrants)
        \<noteq> HookApiVersion (createHookPayload None namespace flags onMask hookParams hookGrants)"
    by (simp add: createHookPayload_fields)
  then have "createHookPayload (Some 0) namespace flags onMask hookParams hookGrants
     \<noteq> createHookPayload None namespace flags onMask hookParams hookGrants"
    by metis
  then show ?thesis by (simp add: createHookPayload_fields)
qed

text \<open>
  C5. A payload built with \<^verbatim>\<open>flags = 0\<close> has no \<^verbatim>\<open>Flags\<close> field and is the very
  payload built with no flags; the field is set exactly when the argument is a non-zero integer,
  and then it is that integer.
\<close>

theorem createHookPayload_flags_zero:
  "Flags (createHookPayload version namespace (Some 0) onMask hookParams hookGrants) = None
   \<and> createHookPayload version namespace (Some 0) onMask hookParams hookGrants
     = createHookPayload version namespace None onMask hookParams hookGrants
   \<and> (Flags (createHookPayload version namespace flags onMask hookParams hookGrants) \<noteq> None)
     = (\<exists>n. flags = Some n \<and> n \<noteq> 0)
   \<and> (Flags (createHookPayload version namespace flags onMask hookParams hookGrants) = Some k)
     = (flags = Some k \<and> k \<noteq> 0)"
  by (auto simp: createHookPayload_fields createHookPayload_def Let_def split: option.splits)

text \<open>
  C6. \<^verbatim>\<open>hexHookParameters\<close> is idempotent, and on every sequence of pairs it is the spec's
  rule applied to each pair in order: a name or a value that is valid hex is kept, any other
  is replaced by two hexadecimal digits for each of its characters (so the result has the
  length and the order of the input).
\<close>

theorem hexHookParameters_idempotent:
  "hexHookParameters (hexHookParameters p) = hexHookParameters p
   \<and> hexHookParameters p = map spec_encodePair p
   \<and> HookParameterName (HookParameter (spec_encodePair q))
     = (if isHex (HookParameterName (HookParameter q)) then HookParameterName (HookParameter q)
        else concat (map (\<lambda>c. hex2 (of_char c)) (HookParameterName (HookParameter q))))
   \<and> HookParameterValue (HookParameter (spec_encodePair q))
     = (if isHex (HookParameterValue (HookParameter q)) then HookParameterValue (HookParameter q)
        else concat (map (\<lambda>c. hex2 (of_char c)) (HookParameterValue (HookParameter q))))"
proof -
  have idem: "hexHookParameters (hexHookParameters p) = hexHookParameters p"
    by (simp add: hexHookParameters_map spec_encodePair_idem)
  have fields: "HookParameterName (HookParameter (spec_encodePair q))
       = (if isHex (HookParameterName (HookParameter q)) then HookParameterName (HookParameter q)
          else concat (map (\<lambda>c. hex2 (of_char c)) (HookParameterName (HookParameter q))))"
    "HookParameterValue (HookParameter (spec_encodePair q))
       = (if isHex (HookParameterValue (HookParameter q)) then HookParameterValue (HookParameter q)
          else concat (map (\<lambda>c. hex2 (of_char c)) (HookParameterValue (HookParameter q))))"
    by (simp_all add: spec_encodePair_def spec_encodeField_def stringToHexString_def)
  from idem fields show ?thesis
    using hexHookParameters_map [of p] by blast
qed


section \<open>The build pipeline\<close>

lemma handleOutput_outputLog: "handleOutput output tr = tr @ [outputLog output]"
  by (simp add: handleOutput_def outputLog_def)

lemma promise_all_Inr: "promise_all (map (\<lambda>a. Inr (f a)) xs) = Inr (map f xs)"
  by (induction xs) simp_all

lemma promise_all_map_Inr: "promise_all (map Inr xs) = Inr xs"
  by (induction xs) simp_all

lemma buildHook_completes:
  assumes "command_output w ''cargo'' cargoArgs = Inr cargoBuildOutput"
    and "command_output w ''wasm-opt'' (wasmOptArgs w hookName) = Inr wasmOptOutput"
    and "command_output w ''hook-cleaner'' (hookCleanerArgs w hookName) = Inr hookCleanerOut"
    and "map (command_output w ''wasm2wat'') (wasm2watArgs w hookName) = map Inr wasm2watOutputs"
    and "command_output w ''guard_checker'' (guardCheckerArgs w hookName) = Inr guardCheckerOut"
    and "readFile w (wasmOutCleaned w hookName) = Inr wasm"
  shows "snd (buildHook w hookName) =
           Inr ((createHookPayload (Some 0) (Some (hookName @ ''namespace'')) None None None None)
                  \<lparr>CreateCode := Some (toUpperCase (uint8ArrayToHexString wasm))\<rparr>)"
proof -
  have "promise_all (map (command_output w ''wasm2wat'') (wasm2watArgs w hookName))
          = Inr wasm2watOutputs"
    by (simp only: assms(4) promise_all_map_Inr)
  with assms(1-3,5,6) show ?thesis
    by (simp add: buildHook_def Let_def)
qed

lemma wasmOutCleaned_stale: 
  "wasmOutCleaned world_stale_artifact ''foo''
     = ''/p/target/wasm32-unknown-unknown/release/foo-cleaned.wasm''"
  by (simp add: wasmOutCleaned_def wasmDir_def world_stale_artifact_def)

lemma command_output_stale: "command_output world_stale_artifact c a = Inr failedOutput"
  by (simp add: world_stale_artifact_def)

lemma wasm2wat_stale:
  "map (command_output world_stale_artifact ''wasm2wat'') (wasm2watArgs world_stale_artifact ''foo'')
     = map Inr [failedOutput, failedOutput, failedOutput]"
  by (simp add: command_output_stale wasm2watArgs_def)

lemma readFile_stale:
  "readFile world_stale_artifact (wasmOutCleaned world_stale_artifact ''foo'')
     = Inr [0x00, 0x61, 0x73, 0x6D]"
  by (simp add: wasmOutCleaned_stale) (simp add: world_stale_artifact_def)

lemma hex_stale: "toUpperCase (uint8ArrayToHexString [0x00, 0x61, 0x73, 0x6D :: u8]) = ''0061736D''"
  by (simp add: uint8ArrayToHexString_def hex2_def hexDigit_def toUpperCase_def upperChar_def)

lemma createHookPayload_foo:
  "createHookPayload (Some 0) (Some ''foonamespace'') None None None None
     = payload_foo\<lparr>CreateCode := None\<rparr>"
  by (simp add: createHookPayload_def payload_foo_def defaultHookOn_def hexNamespace_foonamespace)

lemma buildHook_stale_foo: "snd (buildHook world_stale_artifact ''foo'') = Inr payload_foo"
proof -
  have cmd: "command_output world_stale_artifact = (\<lambda>c a. Inr failedOutput)"
    by (simp add: world_stale_artifact_def)
  have rd: "readFile world_stale_artifact (wasmOutCleaned world_stale_artifact ''foo'')
              = Inr [0x00, 0x61, 0x73, 0x6D]"
    by (simp add: wasmOutCleaned_stale) (simp add: world_stale_artifact_def)
  have hex: "toUpperCase (uint8ArrayToHexString [0x00, 0x61, 0x73, 0x6D :: u8]) = ''0061736D''"
    by (simp add: uint8ArrayToHexString_def hex2_def hexDigit_def toUpperCase_def upperChar_def)
  show ?thesis
    by (simp add: buildHook_def Let_def cmd rd hex wasm2watArgs_def createHookPayload_foo)
       (simp add: payload_foo_def)
qed

text \<open>
  C2 (as stated, refuted). Every tool of the pipeline exits with a failure and no cleaned
  artifact is on disk: \<^verbatim>\<open>buildHook\<close> does not return a payload, it is rejected with the error
  of the final \<^verbatim>\<open>Deno.readFile\<close>.
\<close>

theorem buildHook_failed_stages_no_artifact_raises:
  "snd (buildHook world_no_artifact ''foo'' :: event list \<times> (error + unit HookPayload))
     = Inl (External ''NotFound'')
   \<and> command_output world_no_artifact ''cargo'' cargoArgs = Inr failedOutput
   \<and> success failedOutput = False"
  by (simp add: buildHook_def Let_def world_no_artifact_def wasm2watArgs_def failedOutput_def)

text \<open>
  C2 (amended). Whenever every stage invocation finishes with an exit status, whatever the
  statuses are (\<open>out\<close> is arbitrary), \<^verbatim>\<open>buildHook\<close> runs the same sequence: each of the seven
  commands is started, in order; the output of the compile, optimise and validate stages is
  only logged (standard output on success, standard error on failure) and that of the clean
  stage is logged as JSON; the cleaned artifact is then read. No exit status raises an error or
  skips a stage. The outcome is decided by that final read alone: the payload with its code when
  the artifact can be read, the read's error when it cannot.
\<close>

theorem buildHook_stage_failures_only_logged:
  assumes "\<forall>c a. command_output w c a = Inr (out c a)"
  shows "fst (buildHook w hookName :: event list \<times> (error + 'g HookPayload)) =
           [Spawn ''cargo'' cargoArgs,
            outputLog (out ''cargo'' cargoArgs),
            Spawn ''wasm-opt'' (wasmOptArgs w hookName),
            outputLog (out ''wasm-opt'' (wasmOptArgs w hookName)),
            Spawn ''hook-cleaner'' (hookCleanerArgs w hookName),
            ConsoleLog (Json (out ''hook-cleaner'' (hookCleanerArgs w hookName)))]
           @ map (Spawn ''wasm2wat'') (wasm2watArgs w hookName)
           @ [Spawn ''guard_checker'' (guardCheckerArgs w hookName),
              outputLog (out ''guard_checker'' (guardCheckerArgs w hookName)),
              ReadFile (wasmOutCleaned w hookName)]
       \<and> snd (buildHook w hookName :: event list \<times> (error + 'g HookPayload)) =
           (case readFile w (wasmOutCleaned w hookName) of
              Inl e \<Rightarrow> Inl e
            | Inr wasm \<Rightarrow>
                Inr ((createHookPayload (Some 0) (Some (hookName @ ''namespace'')) None None None None)
                       \<lparr>CreateCode := Some (toUpperCase (uint8ArrayToHexString wasm))\<rparr>))"
proof -
  from assms have cmd: "command_output w = (\<lambda>c a. Inr (out c a))"
    by (intro ext) simp
  have all: "promise_all (map (\<lambda>a. Inr (out ''wasm2wat'' a)) (wasm2watArgs w hookName))
               = Inr (map (out ''wasm2wat'') (wasm2watArgs w hookName))"
    by (rule promise_all_Inr)
  show ?thesis
    by (simp add: buildHook_def Let_def cmd all handleOutput_outputLog split: sum.splits)
qed

theorem buildHook_stage_failures_only_logged_witness:
  "filter isSpawn (fst (buildHook world_stale_artifact ''foo'' :: event list \<times> (error + unit HookPayload)))
     = [Spawn ''cargo'' [''+nightly'', ''build'', ''--release''],
        Spawn ''wasm-opt''
          [''/p/target/wasm32-unknown-unknown/release/foo.wasm'', ''--flatten'', ''--rereloop'',
           ''-Oz'', ''-Oz'', ''-o'', ''/p/target/wasm32-unknown-unknown/release/foo-flattened.wasm''],
        Spawn ''hook-cleaner''
          [''/p/target/wasm32-unknown-unknown/release/foo-flattened.wasm'',
           ''/p/target/wasm32-unknown-unknown/release/foo-cleaned.wasm''],
        Spawn ''wasm2wat'' [''/p/target/wasm32-unknown-unknown/release/foo.wasm'', ''-o'', ''/p/target/foo.wat''],
        Spawn ''wasm2wat''
          [''/p/target/wasm32-unknown-unknown/release/foo-cleaned.wasm'', ''-o'', ''/p/target/foo-cleaned.wat''],
        Spawn ''wasm2wat''
          [''/p/target/wasm32-unknown-unknown/release/foo-flattened.wasm'', ''-o'',
           ''/p/target/foo-flattened.wat''],
        Spawn ''guard_checker'' [''/p/target/wasm32-unknown-unknown/release/foo-cleaned.wasm'']]
   \<and> filter (\<lambda>ev. \<not> isSpawn ev)
        (fst (buildHook world_stale_artifact ''foo'' :: event list \<times> (error + unit HookPayload)))
     = [ConsoleError (Bytes [0x65, 0x72, 0x72]), ConsoleError (Bytes [0x65, 0x72, 0x72]),
        ConsoleLog (Json failedOutput), ConsoleError (Bytes [0x65, 0x72, 0x72]),
        ReadFile ''/p/target/wasm32-unknown-unknown/release/foo-cleaned.wasm'']
   \<and> map_sum id CreateCode
        (snd (buildHook world_stale_artifact ''foo'' :: event list \<times> (error + unit HookPayload)))
     = Inr (Some ''0061736D'')"
proof -
  have "\<forall>c a. command_output world_stale_artifact c a = Inr ((\<lambda>c a. failedOutput) c a)"
    by (simp add: world_stale_artifact_def)
  from buildHook_stage_failures_only_logged [OF this, of "''foo''", where ?'g = unit]
  have tr: "fst (buildHook world_stale_artifact ''foo'' :: event list \<times> (error + unit HookPayload)) =
           [Spawn ''cargo'' cargoArgs,
            outputLog failedOutput,
            Spawn ''wasm-opt'' (wasmOptArgs world_stale_artifact ''foo''),
            outputLog failedOutput,
            Spawn ''hook-cleaner'' (hookCleanerArgs world_stale_artifact ''foo''),
            ConsoleLog (Json failedOutput)]
           @ map (Spawn ''wasm2wat'') (wasm2watArgs world_stale_artifact ''foo'')
           @ [Spawn ''guard_checker'' (guardCheckerArgs world_stale_artifact ''foo''),
              outputLog failedOutput,
              ReadFile (wasmOutCleaned world_stale_artifact ''foo'')]"
    by simp
  have paths:
    "wasmOptArgs world_stale_artifact ''foo'' =
       [''/p/target/wasm32-unknown-unknown/release/foo.wasm'', ''--flatten'', ''--rereloop'',
        ''-Oz'', ''-Oz'', ''-o'', ''/p/target/wasm32-unknown-unknown/release/foo-flattened.wasm'']"
    "hookCleanerArgs world_stale_artifact ''foo'' =
       [''/p/target/wasm32-unknown-unknown/release/foo-flattened.wasm'',
        ''/p/target/wasm32-unknown-unknown/release/foo-cleaned.wasm'']"
    "wasm2watArgs world_stale_artifact ''foo'' =
       [[''/p/target/wasm32-unknown-unknown/release/foo.wasm'', ''-o'', ''/p/target/foo.wat''],
        [''/p/target/wasm32-unknown-unknown/release/foo-cleaned.wasm'', ''-o'', ''/p/target/foo-cleaned.wat''],
        [''/p/target/wasm32-unknown-unknown/release/foo-flattened.wasm'', ''-o'',
         ''/p/target/foo-flattened.wat'']]"
    "guardCheckerArgs world_stale_artifact ''foo'' =
       [''/p/target/wasm32-unknown-unknown/release/foo-cleaned.wasm'']"
    by (simp_all add: wasmOptArgs_def hookCleanerArgs_def wasm2watArgs_def guardCheckerArgs_def
        wasmInFile_def wasmOutFlattened_def wasmOutCleaned_def wasmDir_def debugDir_def
        world_stale_artifact_def)
  have log: "outputLog failedOutput = ConsoleError (Bytes [0x65, 0x72, 0x72])"
    by (simp add: outputLog_def failedOutput_def)
  show ?thesis
    by (simp add: tr paths log cargoArgs_def wasmOutCleaned_stale buildHook_stale_foo)
       (simp add: payload_foo_def)
qed

text \<open>
  C7. For every artifact name, in every environment where the five stages complete (with any
  exit statuses) and the cleaned artifact can be read, \<^verbatim>\<open>buildHook\<close> returns a payload, and
  that payload is the one \<^verbatim>\<open>createHookPayload\<close> builds from version 0 and the seed
  \<open>hookName @ ''namespace''\<close>, with the code attached: its \<^verbatim>\<open>HookApiVersion\<close> is 0 and its
  \<^verbatim>\<open>HookNamespace\<close> is the upper-cased SHA-256 digest of the seed, 64 upper-case hexadecimal
  digits, never the seed itself. For the name \<open>foo\<close> the namespace is the digest of the string
  \<open>foonamespace\<close>.
\<close>

theorem buildHook_namespace:
  assumes "command_output w ''cargo'' cargoArgs = Inr cargoBuildOutput"
    and "command_output w ''wasm-opt'' (wasmOptArgs w hookName) = Inr wasmOptOutput"
    and "command_output w ''hook-cleaner'' (hookCleanerArgs w hookName) = Inr hookCleanerOut"
    and "map (command_output w ''wasm2wat'') (wasm2watArgs w hookName) = map Inr wasm2watOutputs"
    and "command_output w ''guard_checker'' (guardCheckerArgs w hookName) = Inr guardCheckerOut"
    and "readFile w (wasmOutCleaned w hookName) = Inr wasm"
  shows "\<exists>p. snd (buildHook w hookName :: event list \<times> (error + 'g HookPayload)) = Inr p
       \<and> p = (createHookPayload (Some 0) (Some (hookName @ ''namespace'')) None None None None)
               \<lparr>CreateCode := Some (toUpperCase (uint8ArrayToHexString wasm))\<rparr>
       \<and> HookApiVersion p = Some 0
       \<and> HookNamespace p = Some (toUpperCase (sha256_hex (hookName @ ''namespace'')))
       \<and> length (toUpperCase (sha256_hex (hookName @ ''namespace''))) = 64
       \<and> list_all isUpperHexDigit (toUpperCase (sha256_hex (hookName @ ''namespace'')))
       \<and> HookNamespace p \<noteq> Some (hookName @ ''namespace'')
       \<and> (hookName = ''foo'' \<longrightarrow>
            HookNamespace p = Some (toUpperCase (sha256_hex ''foonamespace''))
            \<and> HookNamespace p
                = Some ''3EF7FEEFC8DE4F848C7051D9F78A00E8AAD4E9A1A9DC032C665CDC0612EBFC10'')"
proof -
  define p :: "'g HookPayload" where
    "p = (createHookPayload (Some 0) (Some (hookName @ ''namespace'')) None None None None)
           \<lparr>CreateCode := Some (toUpperCase (uint8ArrayToHexString wasm))\<rparr>"
  have ret: "snd (buildHook w hookName) = Inr p"
    unfolding p_def by (rule buildHook_completes [OF assms])
  have ns: "HookNamespace p = Some (hexNamespace (hookName @ ''namespace''))"
    by (simp add: p_def createHookPayload_fields)
  have v: "HookApiVersion p = Some 0"
    by (simp add: p_def createHookPayload_fields)
  have foo: "hookName = ''foo'' \<longrightarrow> hexNamespace (hookName @ ''namespace'')
               = ''3EF7FEEFC8DE4F848C7051D9F78A00E8AAD4E9A1A9DC032C665CDC0612EBFC10''"
    by (simp add: hexNamespace_foonamespace)
  have "p = (createHookPayload (Some 0) (Some (hookName @ ''namespace'')) None None None None)
               \<lparr>CreateCode := Some (toUpperCase (uint8ArrayToHexString wasm))\<rparr>
       \<and> HookApiVersion p = Some 0
       \<and> HookNamespace p = Some (toUpperCase (sha256_hex (hookName @ ''namespace'')))
       \<and> length (toUpperCase (sha256_hex (hookName @ ''namespace''))) = 64
       \<and> list_all isUpperHexDigit (toUpperCase (sha256_hex (hookName @ ''namespace'')))
       \<and> HookNamespace p \<noteq> Some (hookName @ ''namespace'')
       \<and> (hookName = ''foo'' \<longrightarrow>
            HookNamespace p = Some (toUpperCase (sha256_hex ''foonamespace''))
            \<and> HookNamespace p
                = Some ''3EF7FEEFC8DE4F848C7051D9F78A00E8AAD4E9A1A9DC032C665CDC0612EBFC10'')"
    using ns v foo p_def
      hexNamespace_length [of "hookName @ ''namespace''"]
      hexNamespace_upper [of "hookName @ ''namespace''"]
      hexNamespace_not_seed [of "hookName @ ''namespace''" hookName]
    by (auto simp: hexNamespace_def)
  with ret show ?thesis by blast
qed

theorem buildHook_namespace_witness:
  "snd (buildHook world_stale_artifact ''foo'') = Inr payload_foo
   \<and> HookApiVersion payload_foo = Some 0
   \<and> HookNamespace payload_foo
       = Some ''3EF7FEEFC8DE4F848C7051D9F78A00E8AAD4E9A1A9DC032C665CDC0612EBFC10''
   \<and> HookNamespace payload_foo \<noteq> Some ''foonamespace''"
proof -
  from buildHook_namespace
    [where w = world_stale_artifact and hookName = "''foo''" and ?'g = unit,
     OF command_output_stale command_output_stale command_output_stale wasm2wat_stale
        command_output_stale readFile_stale]
  obtain p :: "unit HookPayload" where
    ret: "snd (buildHook world_stale_artifact ''foo'') = Inr p"
    and p: "p = (createHookPayload (Some 0) (Some (''foo'' @ ''namespace'')) None None None None)
                  \<lparr>CreateCode := Some (toUpperCase (uint8ArrayToHexString [0x00, 0x61, 0x73, 0x6D]))\<rparr>"
    and ns: "HookNamespace p
               = Some ''3EF7FEEFC8DE4F848C7051D9F78A00E8AAD4E9A1A9DC032C665CDC0612EBFC10''"
    by auto
  have "p = payload_foo"
    by (simp add: p createHookPayload_foo hex_stale) (simp add: payload_foo_def)
  with ret show ?thesis
    by (simp add: payload_foo_def)
qed

text \<open>
  C8. For every artifact name, in every environment where the five stages complete (with any
  exit statuses) and the cleaned artifact read has the bytes \<open>wasm\<close>, \<^verbatim>\<open>buildHook\<close> returns a
  payload whose \<^verbatim>\<open>CreateCode\<close> is present, has exactly twice as many characters as \<open>wasm\<close>
  has bytes, consists of upper-case hexadecimal digits, and is the transcription of \<open>wasm\<close> byte
  for byte: two digits for each byte, high nibble first, so that reading it back gives \<open>wasm\<close>.
\<close>

theorem buildHook_CreateCode:
  assumes "command_output w ''cargo'' cargoArgs = Inr cargoBuildOutput"
    and "command_output w ''wasm-opt'' (wasmOptArgs w hookName) = Inr wasmOptOutput"
    and "command_output w ''hook-cleaner'' (hookCleanerArgs w hookName) = Inr hookCleanerOut"
    and "map (command_output w ''wasm2wat'') (wasm2watArgs w hookName) = map Inr wasm2watOutputs"
    and "command_output w ''guard_checker'' (guardCheckerArgs w hookName) = Inr guardCheckerOut"
    and "readFile w (wasmOutCleaned w hookName) = Inr wasm"
  shows "\<exists>p code. snd (buildHook w hookName :: event list \<times> (error + 'g HookPayload)) = Inr p
           \<and> CreateCode p = Some code
           \<and> length code = 2 * length wasm
           \<and> list_all isUpperHexDigit code
           \<and> code = concat (map (\<lambda>b. [upperChar (hexDigit (unat b div 16)),
                                        upperChar (hexDigit (unat b mod 16))]) wasm)
           \<and> hexStringToBytes code = wasm"
proof -
  define code where "code = toUpperCase (uint8ArrayToHexString wasm)"
  define p :: "'g HookPayload" where
    "p = (createHookPayload (Some 0) (Some (hookName @ ''namespace'')) None None None None)
           \<lparr>CreateCode := Some code\<rparr>"
  have ret: "snd (buildHook w hookName :: event list \<times> (error + 'g HookPayload)) = Inr p"
    unfolding p_def code_def by (rule buildHook_completes [OF assms])
  have field: "CreateCode p = Some code"
    by (simp add: p_def)
  have len: "length code = 2 * length wasm"
    by (simp add: code_def toUpperCase_length uint8ArrayToHexString_length)
  have upper: "list_all isUpperHexDigit code"
    by (simp add: code_def toUpperCase_upper uint8ArrayToHexString_lower)
  have digits: "code = concat (map (\<lambda>b. [upperChar (hexDigit (unat b div 16)),
                                             upperChar (hexDigit (unat b mod 16))]) wasm)"
    unfolding code_def by (rule toUpperCase_uint8ArrayToHexString)
  have decoded: "hexStringToBytes code = wasm"
    unfolding code_def by (rule decode_uint8ArrayToHexString)
  from ret field len upper digits decoded show ?thesis
    by blast
qed

theorem buildHook_CreateCode_witness:
  "(\<exists>p. snd (buildHook world_stale_artifact ''foo'' :: event list \<times> (error + unit HookPayload)) = Inr p
        \<and> CreateCode p = Some ''0061736D'')
   \<and> length ''0061736D'' = 2 * length [0x00, 0x61, 0x73, 0x6D :: u8]
   \<and> hexStringToBytes ''0061736D'' = [0x00, 0x61, 0x73, 0x6D]"
proof -
  from buildHook_CreateCode
    [where w = world_stale_artifact and hookName = "''foo''" and ?'g = unit,
     OF command_output_stale command_output_stale command_output_stale wasm2wat_stale
        command_output_stale readFile_stale]
  obtain p :: "unit HookPayload" and code where
    ret: "snd (buildHook world_stale_artifact ''foo'') = Inr p"
    and code: "CreateCode p = Some code"
    and len: "length code = 2 * length [0x00, 0x61, 0x73, 0x6D :: u8]"
    and tr: "code = concat (map (\<lambda>b. [upperChar (hexDigit (unat b div 16)),
                                       upperChar (hexDigit (unat b mod 16))])
                           [0x00, 0x61, 0x73, 0x6D :: u8])"
    and dec: "hexStringToBytes code = [0x00, 0x61, 0x73, 0x6D]"
    by blast
  from tr have "code = ''0061736D''"
    by (simp add: hexDigit_def upperChar_def)
  with ret code len dec show ?thesis
    by blast
qed


section \<open>Submission with retries\<close>

lemma numberToString_3: "numberToString 3 = ''3''"
  by (simp add: numberToString.simps [of 3] digitChar_def)

lemma submit_loop_exhausted:
  "submit_loop sub p 3 c tr
     = (Inl (Error ''Could not submit transaction after 3 tries''), c, tr)"
  by (simp add: submit_loop.simps [of sub p 3] numberToString_3)

lemma submit_loop_Inr:
  "tries < 3 \<Longrightarrow> sub c p = (Inr r, c') \<Longrightarrow>
     submit_loop sub p tries c tr = (Inr r, c', tr @ [SubmitAndWait])"
  by (simp add: submit_loop.simps [of sub p tries])

lemma submit_loop_Inl:
  "tries < 3 \<Longrightarrow> sub c p = (Inl e, c') \<Longrightarrow>
     submit_loop sub p tries c tr
       = submit_loop sub p (Suc tries) c'
           (tr @ [SubmitAndWait, ConsoleError (Text (errorText e @ '' - retrying...'')), Sleep 1000])"
  by (simp add: submit_loop.simps [of sub p tries])

lemma three_failures:
  assumes "sub c p = (Inl e1, c1)" and "sub c1 p = (Inl e2, c2)" and "sub c2 p = (Inl e3, c3)"
  shows "submitAndWaitWithRetries sub c p =
           (Inl (Error ''Could not submit transaction after 3 tries''), c3,
            [SubmitAndWait, ConsoleError (Text (errorText e1 @ '' - retrying...'')), Sleep 1000,
             SubmitAndWait, ConsoleError (Text (errorText e2 @ '' - retrying...'')), Sleep 1000,
             SubmitAndWait, ConsoleError (Text (errorText e3 @ '' - retrying...'')), Sleep 1000])"
proof -
  have "submitAndWaitWithRetries sub c p
          = submit_loop sub p (Suc 0) c1
              [SubmitAndWait, ConsoleError (Text (errorText e1 @ '' - retrying...'')), Sleep 1000]"
    unfolding submitAndWaitWithRetries_def
    using submit_loop_Inl [of 0 sub c p e1 c1 "[]"] assms(1) by simp
  also have "\<dots> = submit_loop sub p (Suc (Suc 0)) c2
              [SubmitAndWait, ConsoleError (Text (errorText e1 @ '' - retrying...'')), Sleep 1000,
               SubmitAndWait, ConsoleError (Text (errorText e2 @ '' - retrying...'')), Sleep 1000]"
    using submit_loop_Inl [of "Suc 0" sub c1 p e2 c2] assms(2) by simp
  also have "\<dots> = submit_loop sub p 3 c3
              [SubmitAndWait, ConsoleError (Text (errorText e1 @ '' - retrying...'')), Sleep 1000,
               SubmitAndWait, ConsoleError (Text (errorText e2 @ '' - retrying...'')), Sleep 1000,
               SubmitAndWait, ConsoleError (Text (errorText e3 @ '' - retrying...'')), Sleep 1000]"
    using submit_loop_Inl [of "Suc (Suc 0)" sub c2 p e3 c3] assms(3)
    by (simp add: numeral_3_eq_3)
  finally show ?thesis
    by (simp add: submit_loop_exhausted)
qed

text \<open>
  C3. \<^verbatim>\<open>submitAndWaitWithRetries\<close>, for every client and every outcome of its calls. When
  the first, the second or the third call succeeds, its result is returned and no further call
  is made. When three calls in a row fail, exactly three attempts have been made, each failure
  is logged and followed by a sleep of 1000 ms (so consecutive attempts are 1000 ms apart), and
  the error raised says \<open>Could not submit transaction after 3 tries\<close>.
\<close>

theorem submitAndWaitWithRetries_attempts:
  "(sub c p = (Inr r, c1) \<longrightarrow>
      submitAndWaitWithRetries sub c p = (Inr r, c1, [SubmitAndWait]))
   \<and> (sub c p = (Inl e1, c1) \<and> sub c1 p = (Inr r, c2) \<longrightarrow>
        submitAndWaitWithRetries sub c p =
          (Inr r, c2,
           [SubmitAndWait, ConsoleError (Text (errorText e1 @ '' - retrying...'')), Sleep 1000,
            SubmitAndWait]))
   \<and> (sub c p = (Inl e1, c1) \<and> sub c1 p = (Inl e2, c2) \<and> sub c2 p = (Inr r, c3) \<longrightarrow>
        submitAndWaitWithRetries sub c p =
          (Inr r, c3,
           [SubmitAndWait, ConsoleError (Text (errorText e1 @ '' - retrying...'')), Sleep 1000,
            SubmitAndWait, ConsoleError (Text (errorText e2 @ '' - retrying...'')), Sleep 1000,
            SubmitAndWait]))
   \<and> (sub c p = (Inl e1, c1) \<and> sub c1 p = (Inl e2, c2) \<and> sub c2 p = (Inl e3, c3) \<longrightarrow>
        submitAndWaitWithRetries sub c p =
          (Inl (Error ''Could not submit transaction after 3 tries''), c3,
           [SubmitAndWait, ConsoleError (Text (errorText e1 @ '' - retrying...'')), Sleep 1000,
            SubmitAndWait, ConsoleError (Text (errorText e2 @ '' - retrying...'')), Sleep 1000,
            SubmitAndWait, ConsoleError (Text (errorText e3 @ '' - retrying...'')), Sleep 1000]))"
proof (intro conjI impI)
  assume "sub c p = (Inr r, c1)"
  then show "submitAndWaitWithRetries sub c p = (Inr r, c1, [SubmitAndWait])"
    unfolding submitAndWaitWithRetries_def
    using submit_loop_Inr [of 0 sub c p r c1 "[]"] by simp
next
  assume a: "sub c p = (Inl e1, c1) \<and> sub c1 p = (Inr r, c2)"
  then show "submitAndWaitWithRetries sub c p =
          (Inr r, c2,
           [SubmitAndWait, ConsoleError (Text (errorText e1 @ '' - retrying...'')), Sleep 1000,
            SubmitAndWait])"
    unfolding submitAndWaitWithRetries_def
    using submit_loop_Inl [of 0 sub c p e1 c1 "[]"] submit_loop_Inr [of "Suc 0" sub c1 p r c2]
    by simp
next
  assume a: "sub c p = (Inl e1, c1) \<and> sub c1 p = (Inl e2, c2) \<and> sub c2 p = (Inr r, c3)"
  then show "submitAndWaitWithRetries sub c p =
          (Inr r, c3,
           [SubmitAndWait, ConsoleError (Text (errorText e1 @ '' - retrying...'')), Sleep 1000,
            SubmitAndWait, ConsoleError (Text (errorText e2 @ '' - retrying...'')), Sleep 1000,
            SubmitAndWait])"
    unfolding submitAndWaitWithRetries_def
    using submit_loop_Inl [of 0 sub c p e1 c1 "[]"] submit_loop_Inl [of "Suc 0" sub c1 p e2 c2]
      submit_loop_Inr [of "Suc (Suc 0)" sub c2 p r c3]
    by simp
next
  assume "sub c p = (Inl e1, c1) \<and> sub c1 p = (Inl e2, c2) \<and> sub c2 p = (Inl e3, c3)"
  then show "submitAndWaitWithRetries sub c p =
          (Inl (Error ''Could not submit transaction after 3 tries''), c3,
           [SubmitAndWait, ConsoleError (Text (errorText e1 @ '' - retrying...'')), Sleep 1000,
            SubmitAndWait, ConsoleError (Text (errorText e2 @ '' - retrying...'')), Sleep 1000,
            SubmitAndWait, ConsoleError (Text (errorText e3 @ '' - retrying...'')), Sleep 1000])"
    using three_failures [of sub c p e1 c1 e2 c2 e3 c3] by simp
qed

theorem submitAndWaitWithRetries_attempts_witness:
  "submitAndWaitWithRetries flakySubmit 3 () = (Inr ''tesSUCCESS'', 4, [SubmitAndWait])
   \<and> submitAndWaitWithRetries flakySubmit 2 () =
       (Inr ''tesSUCCESS'', 4,
        [SubmitAndWait, ConsoleError (Text ''tefPAST_SEQ - retrying...''), Sleep 1000,
         SubmitAndWait])
   \<and> submitAndWaitWithRetries flakySubmit 1 () =
       (Inr ''tesSUCCESS'', 4,
        [SubmitAndWait, ConsoleError (Text ''tefPAST_SEQ - retrying...''), Sleep 1000,
         SubmitAndWait, ConsoleError (Text ''tefPAST_SEQ - retrying...''), Sleep 1000,
         SubmitAndWait])
   \<and> submitAndWaitWithRetries flakySubmit 0 () =
       (Inl (Error ''Could not submit transaction after 3 tries''), 3,
        [SubmitAndWait, ConsoleError (Text ''tefPAST_SEQ - retrying...''), Sleep 1000,
         SubmitAndWait, ConsoleError (Text ''tefPAST_SEQ - retrying...''), Sleep 1000,
         SubmitAndWait, ConsoleError (Text ''tefPAST_SEQ - retrying...''), Sleep 1000])"
  using
    submitAndWaitWithRetries_attempts [where sub = flakySubmit and c = 3 and p = "()"
      and r = "''tesSUCCESS''" and ?c1.0 = 4]
    submitAndWaitWithRetries_attempts [where sub = flakySubmit and c = 2 and p = "()"
      and ?e1.0 = "External ''tefPAST_SEQ''" and ?c1.0 = 3 and r = "''tesSUCCESS''" and ?c2.0 = 4]
    submitAndWaitWithRetries_attempts [where sub = flakySubmit and c = 1 and p = "()"
      and ?e1.0 = "External ''tefPAST_SEQ''" and ?c1.0 = 2
      and ?e2.0 = "External ''tefPAST_SEQ''" and ?c2.0 = 3 and r = "''tesSUCCESS''" and ?c3.0 = 4]
    submitAndWaitWithRetries_attempts [where sub = flakySubmit and c = 0 and p = "()"
      and ?e1.0 = "External ''tefPAST_SEQ''" and ?c1.0 = 1
      and ?e2.0 = "External ''tefPAST_SEQ''" and ?c2.0 = 2
      and ?e3.0 = "External ''tefPAST_SEQ''" and ?c3.0 = 3]
  by (simp add: flakySubmit_def)

text \<open>
  C10. With a client that fails on every call, \<^verbatim>\<open>submitAndWaitWithRetries\<close> sleeps 1000 ms
  after each of the three failed attempts, the last one included: the trace holds three sleeps,
  one after every attempt, and the sleep that follows the third attempt is the last thing done
  before the error is raised.
\<close>

theorem submitAndWaitWithRetries_sleeps_after_last_failure:
  assumes "\<forall>c. \<exists>e c'. sub c p = (Inl e, c')"
  shows "case submitAndWaitWithRetries sub c p of
           (result, c', tr) \<Rightarrow>
             result = Inl (Error ''Could not submit transaction after 3 tries'')
             \<and> filter isAttemptOrSleep tr =
                 [SubmitAndWait, Sleep 1000, SubmitAndWait, Sleep 1000, SubmitAndWait, Sleep 1000]
             \<and> length (filter isSleep tr) = 3
             \<and> last tr = Sleep 1000"
proof -
  from assms obtain e1 c1 where 1: "sub c p = (Inl e1, c1)" by blast
  from assms obtain e2 c2 where 2: "sub c1 p = (Inl e2, c2)" by blast
  from assms obtain e3 c3 where 3: "sub c2 p = (Inl e3, c3)" by blast
  show ?thesis
    by (simp add: three_failures [of sub c p e1 c1 e2 c2 e3 c3, OF 1 2 3])
qed

theorem submitAndWaitWithRetries_sleeps_after_last_failure_witness:
  "fst (submitAndWaitWithRetries downSubmit () ())
     = Inl (Error ''Could not submit transaction after 3 tries'')
   \<and> length (filter isSleep (snd (snd (submitAndWaitWithRetries downSubmit () ())))) = 3
   \<and> last (snd (snd (submitAndWaitWithRetries downSubmit () ()))) = Sleep 1000"
proof -
  have "\<forall>c. \<exists>e c'. downSubmit c () = (Inl e, c')"
    by (simp add: downSubmit_def)
  from submitAndWaitWithRetries_sleeps_after_last_failure
    [where sub = downSubmit and p = "()" and c = "()", OF this]
  show ?thesis
    by (simp split: prod.splits)
qed

section \<open>Fee estimation\<close>








end
